theory Spec2Isabelle
  imports Main "HOL-Library.Char_ord" "HOL-Library.List_Lexorder" "HOL-Library.AList"
begin

section \<open>The upload server's utilities (server/utils.py)\<close>

text \<open>
  A shallow embedding of the functions of \<^verbatim>\<open>server/utils.py\<close> that assemble an upload from
  its chunks, check the merged file, record the upload's status and issue and check transfer
  codes. The module is Python 2 code: a \<^verbatim>\<open>str\<close> is a byte string, so paths, file contents
  and tokens are all \<^typ>\<open>string\<close>, compared byte by byte as Python compares them.

  The platform under the module is modelled as far as the module observes it:
  \<^item> \<^verbatim>\<open>posixpath\<close> (\<^verbatim>\<open>join\<close>, \<^verbatim>\<open>split\<close>, \<^verbatim>\<open>dirname\<close>, \<^verbatim>\<open>splitext\<close>, \<^verbatim>\<open>normpath\<close>) on strings;
  \<^item> a file system of regular files and directories, without symbolic links, permissions,
    quotas or device faults: every error a call raises is one the state of the tree decides
    (a missing entry, a directory where a file is needed, a directory that is not empty);
  \<^item> the record store as lists of rows, \<^verbatim>\<open>query.filter_by(...).first()\<close> being the first
    row that matches; \<^verbatim>\<open>db.session.commit()\<close> always succeeds;
  \<^item> the clock, the random source, the gzip decoder and the configuration as parameters.
  Logging (\<^verbatim>\<open>app.logger\<close>) is left out: nothing reads the log.
\<close>

subsection \<open>Exceptions\<close>

datatype py_error =
    IOError
  | OSError
  | IndexError
  | OverflowError
  | InvalidServerToken
  | OtherError string  \<comment> \<open>an exception of a library that the module never catches\<close>

subsection \<open>Strings and posixpath\<close>

text \<open>\<^verbatim>\<open>s.split(sep)\<close> for a one-character separator: never empty, \<^verbatim>\<open>''.split('/') == ['']\<close>.\<close>

fun split_sep :: "char \<Rightarrow> string \<Rightarrow> string list" where
  "split_sep c [] = [[]]"
| "split_sep c (x # xs) =
     (if x = c then [] # split_sep c xs
      else (case split_sep c xs of w # ws \<Rightarrow> (x # w) # ws | [] \<Rightarrow> [[x]]))"

text \<open>\<^verbatim>\<open>sep.join(words)\<close>.\<close>

fun join_sep :: "string \<Rightarrow> string list \<Rightarrow> string" where
  "join_sep sep [] = []"
| "join_sep sep [w] = w"
| "join_sep sep (w # ws) = w @ sep @ join_sep sep ws"

text \<open>\<^verbatim>\<open>s.startswith(p)\<close>, \<^verbatim>\<open>s.rstrip('/')\<close> and \<^verbatim>\<open>s.lower()\<close> (ASCII letters, the C locale).\<close>

definition startswith :: "string \<Rightarrow> string \<Rightarrow> bool" where
  "startswith s p = (take (length p) s = p)"

definition rstrip_slash :: "string \<Rightarrow> string" where
  "rstrip_slash s = rev (dropWhile (\<lambda>c. c = CHR ''/'') (rev s))"

definition lower_char :: "char \<Rightarrow> char" where
  "lower_char c =
     (if (65::nat) \<le> of_char c \<and> of_char c \<le> (90::nat) then char_of (of_char c + (32::nat)) else c)"

definition lower :: "string \<Rightarrow> string" where
  "lower s = map lower_char s"

text \<open>
  \<^verbatim>\<open>posixpath.join(a, b)\<close>: an absolute \<^verbatim>\<open>b\<close> replaces \<^verbatim>\<open>a\<close>; otherwise \<^verbatim>\<open>b\<close> is appended, after
  a slash unless \<^verbatim>\<open>a\<close> is empty or ends with one.
\<close>

definition os_path_join :: "string \<Rightarrow> string \<Rightarrow> string" where
  "os_path_join a b =
     (if startswith b ''/'' then b
      else if a = [] \<or> last a = CHR ''/'' then a @ b
      else a @ ''/'' @ b)"

text \<open>
  \<^verbatim>\<open>posixpath.split(p)\<close>: the text up to the last slash and the text after it; trailing
  slashes of the head are stripped unless the head is slashes only.
\<close>

definition os_path_basename :: "string \<Rightarrow> string" where
  "os_path_basename p = rev (takeWhile (\<lambda>c. c \<noteq> CHR ''/'') (rev p))"

definition os_path_dirname :: "string \<Rightarrow> string" where
  "os_path_dirname p =
     (let head = rev (dropWhile (\<lambda>c. c \<noteq> CHR ''/'') (rev p))
      in if head \<noteq> [] \<and> head \<noteq> replicate (length head) (CHR ''/'') then rstrip_slash head
         else head)"

text \<open>
  \<^verbatim>\<open>posixpath.splitext(p)[1]\<close>: the text from the last dot of the last component, provided
  a character other than a dot stands before that dot in the component; else empty.
\<close>

definition splitext_ext :: "string \<Rightarrow> string" where
  "splitext_ext p =
     (let name = os_path_basename p;
          ext = rev (takeWhile (\<lambda>c. c \<noteq> CHR ''.'') (rev name));
          stem = rev (dropWhile (\<lambda>c. c \<noteq> CHR ''.'') (rev name))
      in if stem \<noteq> [] \<and> (\<exists>c \<in> set (butlast stem). c \<noteq> CHR ''.'') then CHR ''.'' # ext
         else [])"

text \<open>
  \<^verbatim>\<open>posixpath.normpath(path)\<close>, the loop over the components as the library writes it, and
  \<^verbatim>\<open>os.path.realpath\<close>, which without symbolic links is \<^verbatim>\<open>abspath\<close>: the path joined to the
  working directory and normalised.
\<close>

definition normpath_step :: "nat \<Rightarrow> string list \<Rightarrow> string \<Rightarrow> string list" where
  "normpath_step initial_slashes new_comps c =
     (if c = [] \<or> c = ''.'' then new_comps
      else if c \<noteq> ''..'' \<or> (initial_slashes = 0 \<and> new_comps = [])
              \<or> (new_comps \<noteq> [] \<and> last new_comps = ''..'')
        then new_comps @ [c]
      else if new_comps \<noteq> [] then butlast new_comps
      else new_comps)"

definition normpath :: "string \<Rightarrow> string" where
  "normpath path =
     (if path = [] then ''.''
      else
        let initial_slashes =
              (if startswith path ''/''
               then (if startswith path ''//'' \<and> \<not> startswith path ''///'' then 2 else 1)
               else (0::nat));
            comps = foldl (normpath_step initial_slashes) [] (split_sep (CHR ''/'') path);
            p = replicate initial_slashes (CHR ''/'') @ join_sep ''/'' comps
        in if p = [] then ''.'' else p)"

subsection \<open>The file system\<close>

text \<open>
  A node is a regular file with its bytes, or a directory. The tree is an association list
  from the list of component names below the root to the node; the order of the list is the
  order in which \<^verbatim>\<open>os.listdir\<close> reports entries. The root is always a directory.
  \<^verbatim>\<open>getcwd\<close> is the working directory of the process, an absolute path.
\<close>

datatype node = File string | Dir

type_synonym key = "string list"

record filesystem =
  getcwd :: string
  nodes :: "(key \<times> node) list"

definition lookup :: "filesystem \<Rightarrow> key \<Rightarrow> node option" where
  "lookup fs k = (if k = [] then Some Dir else map_of (nodes fs) k)"

text \<open>
  Path resolution as the kernel does it: every component is looked up in a directory, so
  the walk fails when it stands on something that is not a directory. Empty components and
  \<^verbatim>\<open>.\<close> stay, \<^verbatim>\<open>..\<close> goes up (the root is its own parent). The last component need not
  exist. The empty path resolves to nothing.
\<close>

definition step_component :: "key \<Rightarrow> string \<Rightarrow> key" where
  "step_component cur c =
     (if c = [] \<or> c = ''.'' then cur else if c = ''..'' then butlast cur else cur @ [c])"

fun walk :: "filesystem \<Rightarrow> key \<Rightarrow> string list \<Rightarrow> key option" where
  "walk fs cur [] = Some cur"
| "walk fs cur (c # cs) =
     (if lookup fs cur = Some Dir then walk fs (step_component cur c) cs else None)"

definition resolve :: "filesystem \<Rightarrow> string \<Rightarrow> key option" where
  "resolve fs p =
     (if p = [] then None
      else walk fs []
             (if startswith p ''/'' then split_sep (CHR ''/'') p
              else split_sep (CHR ''/'') (getcwd fs) @ split_sep (CHR ''/'') p))"

definition os_path_realpath :: "filesystem \<Rightarrow> string \<Rightarrow> string" where
  "os_path_realpath fs p =
     normpath (if startswith p ''/'' then p else os_path_join (getcwd fs) p)"

definition os_path_isfile :: "filesystem \<Rightarrow> string \<Rightarrow> bool" where
  "os_path_isfile fs p =
     (case resolve fs p of
        None \<Rightarrow> False
      | Some k \<Rightarrow> (case lookup fs k of Some (File _) \<Rightarrow> True | _ \<Rightarrow> False))"

text \<open>
  \<^verbatim>\<open>open(p, 'wb')\<close>: creates the file or truncates the one that is there; IOError when
  the path does not resolve or names a directory. The result is the tree with the empty
  file, and the key the open file stands at.
\<close>

definition open_wb :: "filesystem \<Rightarrow> string \<Rightarrow> py_error + (filesystem \<times> key)" where
  "open_wb fs p =
     (case resolve fs p of
        None \<Rightarrow> Inl IOError
      | Some k \<Rightarrow>
          (if lookup fs k = Some Dir then Inl IOError
           else Inr (fs\<lparr>nodes := AList.update k (File []) (nodes fs)\<rparr>, k)))"

text \<open>\<^verbatim>\<open>OUTPUT.write(bs)\<close> on the file opened at key \<^verbatim>\<open>k\<close>: the bytes go to its end.\<close>

definition file_write :: "filesystem \<Rightarrow> key \<Rightarrow> string \<Rightarrow> filesystem" where
  "file_write fs k bs =
     (case lookup fs k of
        Some (File old) \<Rightarrow> fs\<lparr>nodes := AList.update k (File (old @ bs)) (nodes fs)\<rparr>
      | _ \<Rightarrow> fs)"

text \<open>\<^verbatim>\<open>open(p, 'rb').read()\<close>: the bytes of a regular file; IOError otherwise.\<close>

definition read_file :: "filesystem \<Rightarrow> string \<Rightarrow> py_error + string" where
  "read_file fs p =
     (case resolve fs p of
        None \<Rightarrow> Inl IOError
      | Some k \<Rightarrow> (case lookup fs k of Some (File bs) \<Rightarrow> Inr bs | _ \<Rightarrow> Inl IOError))"

text \<open>\<^verbatim>\<open>os.remove(p)\<close>: unlinks a regular file; OSError when there is none.\<close>

definition os_remove :: "filesystem \<Rightarrow> string \<Rightarrow> py_error + filesystem" where
  "os_remove fs p =
     (case resolve fs p of
        None \<Rightarrow> Inl OSError
      | Some k \<Rightarrow>
          (case lookup fs k of
             Some (File _) \<Rightarrow> Inr (fs\<lparr>nodes := AList.delete k (nodes fs)\<rparr>)
           | _ \<Rightarrow> Inl OSError))"

text \<open>The names in the directory at key \<^verbatim>\<open>k\<close>, in the order of the tree.\<close>

definition entries :: "filesystem \<Rightarrow> key \<Rightarrow> string list" where
  "entries fs k =
     remdups (map last (filter (\<lambda>k'. k' \<noteq> [] \<and> butlast k' = k) (map fst (nodes fs))))"

definition os_listdir :: "filesystem \<Rightarrow> string \<Rightarrow> py_error + string list" where
  "os_listdir fs p =
     (case resolve fs p of
        None \<Rightarrow> Inl OSError
      | Some k \<Rightarrow> (if lookup fs k = Some Dir then Inr (entries fs k) else Inl OSError))"

text \<open>
  \<^verbatim>\<open>os.rmdir(p)\<close>: removes an empty directory; OSError when the path names no directory,
  a directory with entries, the root, or ends in \<^verbatim>\<open>.\<close> or \<^verbatim>\<open>..\<close>.
\<close>

definition os_rmdir :: "filesystem \<Rightarrow> string \<Rightarrow> py_error + filesystem" where
  "os_rmdir fs p =
     (let names = filter (\<lambda>c. c \<noteq> []) (split_sep (CHR ''/'') p)
      in if names \<noteq> [] \<and> (last names = ''.'' \<or> last names = ''..'') then Inl OSError
         else
           (case resolve fs p of
              None \<Rightarrow> Inl OSError
            | Some k \<Rightarrow>
                (if k \<noteq> [] \<and> lookup fs k = Some Dir \<and> entries fs k = []
                 then Inr (fs\<lparr>nodes := AList.delete k (nodes fs)\<rparr>)
                 else Inl OSError)))"

text \<open>
  \<^verbatim>\<open>os.path.getsize(p)\<close>: the length of a regular file; OSError when the path names
  nothing. The size a directory reports is the host's, the parameter \<^verbatim>\<open>dir_size\<close>.
\<close>

definition os_path_getsize :: "int \<Rightarrow> filesystem \<Rightarrow> string \<Rightarrow> py_error + int" where
  "os_path_getsize dir_size fs p =
     (case resolve fs p of
        None \<Rightarrow> Inl OSError
      | Some k \<Rightarrow>
          (case lookup fs k of
             None \<Rightarrow> Inl OSError
           | Some (File bs) \<Rightarrow> Inr (int (length bs))
           | Some Dir \<Rightarrow> Inr dir_size))"

subsection \<open>Configuration and libraries taken as parameters\<close>

text \<open>
  \<^item> \<^verbatim>\<open>UPLOAD_FOLDER\<close>: \<^verbatim>\<open>app.config['UPLOAD_FOLDER']\<close> (the configuration module is not part
    of the sources);
  \<^item> \<^verbatim>\<open>gzip_read bs n\<close>: what \<^verbatim>\<open>gzip.open(f, 'rb').read(n)\<close> does on a file whose bytes are
    \<^verbatim>\<open>bs\<close>: the decompressed bytes, or the exception the decoder raises;
  \<^item> \<^verbatim>\<open>glob_dirs fs d\<close>: the directories \<^verbatim>\<open>glob.iglob(d)\<close> yields for a directory name
    \<^verbatim>\<open>d\<close> that holds a wildcard;
  \<^item> \<^verbatim>\<open>dir_size\<close>: the size \<^verbatim>\<open>stat\<close> reports for a directory.
\<close>

record env =
  UPLOAD_FOLDER :: string
  gzip_read :: "string \<Rightarrow> nat \<Rightarrow> py_error + string"
  glob_dirs :: "filesystem \<Rightarrow> string \<Rightarrow> string list"
  dir_size :: int

subsection \<open>Responses\<close>

record response =
  message :: string
  status_code :: int

text \<open>\<^verbatim>\<open>return_message(message, status_code)\<close>: the JSON body \<^verbatim>\<open>{'message': message}\<close> and the code.\<close>

definition return_message :: "string \<Rightarrow> int \<Rightarrow> response" where
  "return_message m c = \<lparr>message = m, status_code = c\<rparr>"

subsection \<open>The record store\<close>

text \<open>
  Times are \<^verbatim>\<open>datetime\<close> values, counted in microseconds from \<^verbatim>\<open>datetime.min\<close>. The rows
  carry the columns the functions below read or write; \<^verbatim>\<open>server.users\<close> and \<^verbatim>\<open>user.access\<close>
  are the foreign keys \<^verbatim>\<open>user_server\<close> and \<^verbatim>\<open>access_user\<close>.
\<close>

type_synonym datetime = int

record server_row =
  server_token :: string
  server_id :: string  \<comment> \<open>as \<^verbatim>\<open>'{}'.format\<close> prints it\<close>

record user_row =
  user_id :: string
  user_name :: "string option"
  user_email :: "string option"
  user_server :: string

record access_row =
  auth_token :: string
  creation_date :: datetime
  expiration_date :: datetime
  access_user :: string

record file_row =
  file_identifier :: string  \<comment> \<open>the column \<^verbatim>\<open>identifier\<close>\<close>
  upload_status :: string
  upload_end_date :: "datetime option"

record database =
  servers :: "server_row list"
  users :: "user_row list"
  accesses :: "access_row list"
  files :: "file_row list"

subsection \<open>Transfer codes\<close>

text \<open>
  \<^verbatim>\<open>base64.urlsafe_b64encode\<close>: three bytes give four characters of the alphabet
  \<^verbatim>\<open>A-Z a-z 0-9 - _\<close>; a last group of one or two bytes is padded with \<^verbatim>\<open>=\<close>.
\<close>

definition b64_char :: "nat \<Rightarrow> char" where
  "b64_char i =
     ''ABCDEFGHIJKLMNOPQRSTUVWXYZabcdefghijklmnopqrstuvwxyz0123456789-_'' ! i"

fun b64_groups :: "nat list \<Rightarrow> string" where
  "b64_groups [] = []"
| "b64_groups [a] = [b64_char (a div 4), b64_char ((a mod 4) * 16), CHR ''='', CHR ''='']"
| "b64_groups [a, b] =
     [b64_char (a div 4), b64_char ((a mod 4) * 16 + b div 16), b64_char ((b mod 16) * 4),
      CHR ''='']"
| "b64_groups (a # b # c # bs) =
     [b64_char (a div 4), b64_char ((a mod 4) * 16 + b div 16),
      b64_char ((b mod 16) * 4 + c div 64), b64_char (c mod 64)] @ b64_groups bs"

definition urlsafe_b64encode :: "string \<Rightarrow> string" where
  "urlsafe_b64encode s = b64_groups (map of_char s)"

text \<open>
  \<^verbatim>\<open>os.urandom(n)\<close>: the next \<^verbatim>\<open>n\<close> bytes of the random source, an endless supply of
  bytes; the result is the bytes and the supply that is left.
\<close>

type_synonym random_source = "nat \<Rightarrow> char"

definition os_urandom :: "random_source \<Rightarrow> nat \<Rightarrow> string \<times> random_source" where
  "os_urandom rng n = (map rng [0..<n], \<lambda>i. rng (i + n))"

text \<open>
  \<^verbatim>\<open>dt.timedelta(days)\<close> for a whole number of days, and \<^verbatim>\<open>datetime + timedelta\<close>; both
  raise OverflowError out of their range (\<^verbatim>\<open>datetime.max\<close> is the last microsecond of the
  year 9999, day 3652059).
\<close>

definition timedelta :: "int \<Rightarrow> py_error + int" where
  "timedelta days =
     (if \<bar>days\<bar> > 999999999 then Inl OverflowError else Inr (days * 86400000000))"

definition datetime_add :: "datetime \<Rightarrow> int \<Rightarrow> py_error + datetime" where
  "datetime_add t delta =
     (if t + delta < 0 \<or> t + delta \<ge> 3652059 * 86400000000 then Inl OverflowError
      else Inr (t + delta))"

text \<open>
  \<^verbatim>\<open>generate_auth_token(server_token, username, name=None, email=None, duration_days=1)\<close>.
  \<^verbatim>\<open>None\<close> for \<^verbatim>\<open>duration_days\<close> is the call that leaves the argument out. \<^verbatim>\<open>now\<close> is what
  \<^verbatim>\<open>dt.datetime.today()\<close> returns.
\<close>

definition generate_auth_token ::
  "random_source \<Rightarrow> datetime \<Rightarrow> database \<Rightarrow> string \<Rightarrow> string \<Rightarrow> string option \<Rightarrow> string option
     \<Rightarrow> int option \<Rightarrow> py_error + ((string \<times> datetime) \<times> database \<times> random_source)" where
  "generate_auth_token rng now db server_token' username name email duration_days =
     (case find (\<lambda>s. server_token s = server_token') (servers db) of
        None \<Rightarrow> Inl InvalidServerToken
      | Some server \<Rightarrow>
          let user_id' = server_id server @ ''/'' @ username;
              users' =
                (case find (\<lambda>u. user_id u = user_id') (users db) of
                   None \<Rightarrow>
                     users db @
                       [\<lparr>user_id = user_id', user_name = name, user_email = email,
                         user_server = server_id server\<rparr>]
                 | Some user \<Rightarrow> users db);
              (random_bytes, rng') = os_urandom rng 12;
              auth_token' = urlsafe_b64encode random_bytes;
              current_date = now
          in (case timedelta (case duration_days of None \<Rightarrow> 1 | Some d \<Rightarrow> d) of
                Inl e \<Rightarrow> Inl e
              | Inr delta \<Rightarrow>
                  (case datetime_add current_date delta of
                     Inl e \<Rightarrow> Inl e
                   | Inr expiry_date \<Rightarrow>
                       Inr ((auth_token', expiry_date),
                            db\<lparr>users := users',
                               accesses := accesses db @
                                 [\<lparr>auth_token = auth_token', creation_date = current_date,
                                   expiration_date = expiry_date, access_user = user_id'\<rparr>]\<rparr>,
                            rng'))))"

text \<open>\<^verbatim>\<open>get_auth_status(auth_token)\<close>, with \<^verbatim>\<open>now\<close> for \<^verbatim>\<open>dt.datetime.today()\<close>.\<close>

definition get_auth_status :: "datetime \<Rightarrow> database \<Rightarrow> string \<Rightarrow> string" where
  "get_auth_status current_time db auth_token' =
     (case find (\<lambda>a. auth_token a = auth_token') (accesses db) of
        None \<Rightarrow> ''not found''
      | Some access \<Rightarrow>
          if current_time > expiration_date access then ''expired'' else ''valid'')"

subsection \<open>File names and extensions\<close>

definition is_gzip_file :: "string \<Rightarrow> bool" where
  "is_gzip_file filename = (lower (splitext_ext filename) \<in> set [''.gz'', ''.tgz''])"

text \<open>
  \<^verbatim>\<open>gzip_test(filename)\<close>: opens the file and reads a megabyte of decompressed data; an
  IOError, of the open or of the decoder, is the answer \<^verbatim>\<open>False\<close>; any other exception
  goes on to the caller.
\<close>

definition gzip_test :: "env \<Rightarrow> filesystem \<Rightarrow> string \<Rightarrow> py_error + bool" where
  "gzip_test cfg fs filename =
     (case read_file fs filename of
        Inl e \<Rightarrow> (if e = IOError then Inr False else Inl e)
      | Inr bs \<Rightarrow>
          (case gzip_read cfg bs (1024 * 1024) of
             Inl e \<Rightarrow> (if e = IOError then Inr False else Inl e)
           | Inr _ \<Rightarrow> Inr True))"

text \<open>\<^verbatim>\<open>get_tempdir(*args)\<close>: the upload folder, joined with each argument in turn.\<close>

definition get_tempdir :: "env \<Rightarrow> string list \<Rightarrow> string" where
  "get_tempdir cfg args = foldl os_path_join (UPLOAD_FOLDER cfg) args"



text \<open>
  The digits of a number at a given width, the last digit last. For a number that fits
  the width this is what the padding writes; the proofs of the chunk order use it.
\<close>

fun fixed_digits :: "nat \<Rightarrow> nat \<Rightarrow> string" where
  "fixed_digits 0 n = []"
| "fixed_digits (Suc w) n = fixed_digits w (n div 10) @ [char_of (48 + n mod 10)]"


definition CHUNK_PREFIX :: string where
  "CHUNK_PREFIX = ''chunk.''"


text \<open>
  \<^verbatim>\<open>get_file_chunks(temp_dir)\<close> is \<^verbatim>\<open>glob(os.path.join(temp_dir, 'chunk.*'))\<close>. The pattern's
  last component is \<^verbatim>\<open>chunk.*\<close>, which matches the names that start with \<^verbatim>\<open>chunk.\<close> (none
  of them hidden); \<^verbatim>\<open>glob1\<close> lists the directory and answers nothing when it cannot. A
  directory part with a wildcard is expanded first (\<^verbatim>\<open>glob_dirs\<close>); an empty directory
  part lists the working directory and yields bare names.
\<close>

definition has_magic :: "string \<Rightarrow> bool" where
  "has_magic s = (\<exists>c \<in> set s. c = CHR ''*'' \<or> c = CHR ''?'' \<or> c = CHR ''['')"

definition glob1 :: "filesystem \<Rightarrow> string \<Rightarrow> string list" where
  "glob1 fs dirname =
     (case os_listdir fs dirname of
        Inl _ \<Rightarrow> []
      | Inr names \<Rightarrow> filter (\<lambda>n. startswith n CHUNK_PREFIX) names)"

definition get_file_chunks :: "env \<Rightarrow> filesystem \<Rightarrow> string \<Rightarrow> string list" where
  "get_file_chunks cfg fs temp_dir =
     (let pathname = os_path_join temp_dir (CHUNK_PREFIX @ ''*'');
          dirname = os_path_dirname pathname
      in if dirname = [] then glob1 fs ''.''
         else concat (map (\<lambda>d. map (os_path_join d) (glob1 fs d))
                (if has_magic dirname then glob_dirs cfg fs dirname else [dirname])))"

subsection \<open>Merging the chunks\<close>

text \<open>
  The loop of \<^verbatim>\<open>merge_chunks\<close>: each chunk is read whole and written to the open output
  file. The result is the exception that stopped the loop, if any, and the tree as the
  loop left it. A write reaches the file at once; when a chunk path names the output file
  itself the bytes read are those written so far.
\<close>

fun copy_chunks :: "filesystem \<Rightarrow> key \<Rightarrow> string list \<Rightarrow> py_error option \<times> filesystem" where
  "copy_chunks fs out [] = (None, fs)"
| "copy_chunks fs out (path # paths) =
     (case read_file fs path of
        Inl e \<Rightarrow> (Some e, fs)
      | Inr bs \<Rightarrow> copy_chunks (file_write fs out bs) out paths)"

text \<open>
  The handler of \<^verbatim>\<open>merge_chunks\<close>: an IOError removes the output file, an OSError of the
  removal is passed over, and the function returns \<^verbatim>\<open>False\<close>; any other exception goes on.
\<close>

definition merge_failed :: "py_error \<Rightarrow> filesystem \<Rightarrow> string \<Rightarrow> py_error + (bool \<times> filesystem)" where
  "merge_failed e fs output_file =
     (if e = IOError
      then (case os_remove fs output_file of
              Inl e' \<Rightarrow> (if e' = OSError then Inr (False, fs) else Inl e')
            | Inr fs' \<Rightarrow> Inr (False, fs'))
      else Inl e)"

text \<open>
  \<^verbatim>\<open>merge_chunks(chunk_paths, filename)\<close>. \<^verbatim>\<open>chunk_paths[0]\<close> of an empty list raises
  IndexError, outside the \<^verbatim>\<open>try\<close>.
\<close>

definition merge_chunks :: "filesystem \<Rightarrow> string list \<Rightarrow> string \<Rightarrow> py_error + (bool \<times> filesystem)" where
  "merge_chunks fs chunk_paths filename =
     (case sort chunk_paths of
        [] \<Rightarrow> Inl IndexError
      | first # _ \<Rightarrow>
          let output_file = os_path_join (os_path_dirname (os_path_realpath fs first)) filename
          in (case open_wb fs output_file of
                Inl e \<Rightarrow> merge_failed e fs output_file
              | Inr (fs0, out) \<Rightarrow>
                  (case copy_chunks fs0 out (sort chunk_paths) of
                     (None, fs1) \<Rightarrow> Inr (True, fs1)
                   | (Some e, fs1) \<Rightarrow> merge_failed e fs1 output_file)))"

subsection \<open>Upload status and finalisation\<close>

text \<open>
  \<^verbatim>\<open>update_file_status(identifier, status)\<close>: the first row with the identifier gets the
  status, and the end date unless the status is \<^verbatim>\<open>'ongoing'\<close>; without such a row nothing
  happens.
\<close>

fun update_first :: "('a \<Rightarrow> bool) \<Rightarrow> ('a \<Rightarrow> 'a) \<Rightarrow> 'a list \<Rightarrow> 'a list" where
  "update_first P f [] = []"
| "update_first P f (x # xs) = (if P x then f x # xs else x # update_first P f xs)"

definition update_file_status :: "datetime \<Rightarrow> string \<Rightarrow> string \<Rightarrow> database \<Rightarrow> database" where
  "update_file_status now identifier' status db =
     (case find (\<lambda>f. file_identifier f = identifier') (files db) of
        None \<Rightarrow> db
      | Some file \<Rightarrow>
          db\<lparr>files :=
               update_first (\<lambda>f. file_identifier f = identifier')
                 (\<lambda>f. if status \<noteq> ''ongoing''
                      then f\<lparr>upload_status := status, upload_end_date := Some now\<rparr>
                      else f\<lparr>upload_status := status\<rparr>)
                 (files db)\<rparr>)"

text \<open>
  \<^verbatim>\<open>remove_from_uploads(tempdir)\<close>: removes each entry of the directory, then the directory;
  the first OSError ends the attempt silently, leaving what was not yet removed.
\<close>

fun remove_entries :: "filesystem \<Rightarrow> string \<Rightarrow> string list \<Rightarrow> py_error option \<times> filesystem" where
  "remove_entries fs tempdir [] = (None, fs)"
| "remove_entries fs tempdir (chunk # chunks) =
     (case os_remove fs (os_path_join tempdir chunk) of
        Inl e \<Rightarrow> (Some e, fs)
      | Inr fs' \<Rightarrow> remove_entries fs' tempdir chunks)"

definition remove_from_uploads :: "filesystem \<Rightarrow> string \<Rightarrow> py_error + filesystem" where
  "remove_from_uploads fs tempdir =
     (case os_listdir fs tempdir of
        Inl e \<Rightarrow> (if e = OSError then Inr fs else Inl e)
      | Inr all_chunks \<Rightarrow>
          (case remove_entries fs tempdir all_chunks of
             (Some e, fs1) \<Rightarrow> (if e = OSError then Inr fs1 else Inl e)
           | (None, fs1) \<Rightarrow>
               (case os_rmdir fs1 tempdir of
                  Inl e \<Rightarrow> (if e = OSError then Inr fs1 else Inl e)
                | Inr fs2 \<Rightarrow> Inr fs2)))"

text \<open>
  The request \<^verbatim>\<open>data\<close> of \<^verbatim>\<open>generate_file\<close>, with the four keys the function reads.
\<close>

record upload_data =
  data_auth_token :: string
  data_identifier :: string
  data_filename :: string
  data_total_size :: int

text \<open>
  The second half of \<^verbatim>\<open>generate_file\<close>, from the comment \<^verbatim>\<open>Check for GZIP and perform
  integrity test\<close> to the end: the gzip test (only for a gzip file name), the size test,
  and the success.
\<close>

definition check_merged_file ::
  "env \<Rightarrow> datetime \<Rightarrow> upload_data \<Rightarrow> string \<Rightarrow> string \<Rightarrow> filesystem \<times> database
     \<Rightarrow> py_error + (response \<times> filesystem \<times> database)" where
  "check_merged_file cfg now data temp_dir merged_file w =
     (case w of (fs, db) \<Rightarrow>
       (case (if is_gzip_file (data_filename data) then gzip_test cfg fs merged_file else Inr True) of
          Inl e \<Rightarrow> Inl e
        | Inr readable \<Rightarrow>
            if is_gzip_file (data_filename data) \<and> \<not> readable
            then (case remove_from_uploads fs temp_dir of
                    Inl e \<Rightarrow> Inl e
                  | Inr fs' \<Rightarrow>
                      Inr (return_message ''Error: Truncated GZIP file'' 415, fs',
                           update_file_status now (data_identifier data) ''corrupt'' db))
            else (case os_path_getsize (dir_size cfg) fs merged_file of
                    Inl e \<Rightarrow> Inl e
                  | Inr sz \<Rightarrow>
                      if sz \<noteq> data_total_size data
                      then (case os_remove fs merged_file of
                              Inl e \<Rightarrow> Inl e
                            | Inr fs' \<Rightarrow>
                                Inr (return_message ''Error: Inconsistent merged file size'' 415,
                                     fs', db))
                      else Inr (return_message ''Success: File upload completed successfully'' 200,
                                fs, update_file_status now (data_identifier data) ''complete'' db))))"

text \<open>
  \<^verbatim>\<open>generate_file(data)\<close>, on the file system and the record store; \<^verbatim>\<open>now\<close> is the
  \<^verbatim>\<open>dt.datetime.today()\<close> of \<^verbatim>\<open>update_file_status\<close>. \<^verbatim>\<open>Inl\<close> is an exception that leaves the
  function. (The constant carries a prime: its plain name is a command of the prover.)
\<close>

definition generate_file' ::
  "env \<Rightarrow> datetime \<Rightarrow> upload_data \<Rightarrow> filesystem \<times> database
     \<Rightarrow> py_error + (response \<times> filesystem \<times> database)" where
  "generate_file' cfg now data w =
     (case w of (fs, db) \<Rightarrow>
       let temp_dir = get_tempdir cfg [data_auth_token data, data_identifier data];
           all_chunks = get_file_chunks cfg fs temp_dir;
           merged_file = os_path_join temp_dir (data_filename data)
       in if \<not> os_path_isfile fs merged_file
          then (case merge_chunks fs all_chunks (data_filename data) of
                  Inl e \<Rightarrow> Inl e
                | Inr (success, fs1) \<Rightarrow>
                    if \<not> success
                    then Inr (return_message ''Error: File could not be merged'' 500, fs1,
                              update_file_status now (data_identifier data) ''unmerged'' db)
                    else check_merged_file cfg now data temp_dir merged_file (fs1, db))
          else check_merged_file cfg now data temp_dir merged_file (fs, db))"

subsection \<open>Example states\<close>

text \<open>A store with one transfer code, issued at time 1000 and valid up to time 2000.\<close>

definition example_accesses :: database where
  "example_accesses =
     \<lparr>servers = [], users = [],
      accesses = [\<lparr>auth_token = ''c2VjcmV0IHRva2VuIQ=='', creation_date = 1000,
                   expiration_date = 2000, access_user = ''1/ann''\<rparr>],
      files = []\<rparr>"

text \<open>A store with one registered server and nothing else.\<close>

definition example_servers :: database where
  "example_servers =
     \<lparr>servers = [\<lparr>server_token = ''s3cr3t'', server_id = ''1''\<rparr>], users = [], accesses = [],
      files = []\<rparr>"

text \<open>
  A configuration whose stand-in decoder accepts the files that begin with the gzip magic
  bytes \<^verbatim>\<open>1f 8b\<close> and raises IOError on the others.
\<close>

definition example_cfg :: env where
  "example_cfg =
     \<lparr>UPLOAD_FOLDER = ''/srv/uploads'',
      gzip_read = (\<lambda>bs n. if take 2 bs = [CHR 0x1F, CHR 0x8B]
                           then Inr (take n (drop 2 bs)) else Inl IOError),
      glob_dirs = (\<lambda>fs d. []),
      dir_size = 4096\<rparr>"

text \<open>
  The upload \<^verbatim>\<open>abc\<close> of the owner \<^verbatim>\<open>tok\<close> with two chunks, \<^verbatim>\<open>HELLO\<close> and \<^verbatim>\<open>WORLD\<close>, listed
  out of order, and an upload directory \<^verbatim>\<open>empty\<close> without chunks; the same tree after the
  chunks of \<^verbatim>\<open>abc\<close> were merged into \<^verbatim>\<open>out.txt\<close>.
\<close>

definition example_fs :: filesystem where
  "example_fs =
     \<lparr>getcwd = ''/srv'',
      nodes =
        [([''srv''], Dir),
         ([''srv'', ''uploads''], Dir),
         ([''srv'', ''uploads'', ''tok''], Dir),
         ([''srv'', ''uploads'', ''tok'', ''abc''], Dir),
         ([''srv'', ''uploads'', ''tok'', ''abc'', ''chunk.00000001''], File ''WORLD''),
         ([''srv'', ''uploads'', ''tok'', ''abc'', ''chunk.00000000''], File ''HELLO''),
         ([''srv'', ''uploads'', ''tok'', ''empty''], Dir)]\<rparr>"


text \<open>A store with the file row of the upload \<^verbatim>\<open>abc\<close>, still ongoing.\<close>

definition example_db :: database where
  "example_db =
     \<lparr>servers = [], users = [], accesses = [],
      files = [\<lparr>file_identifier = ''abc'', upload_status = ''ongoing'', upload_end_date = None\<rparr>]\<rparr>"

definition example_data :: "string \<Rightarrow> string \<Rightarrow> int \<Rightarrow> upload_data" where
  "example_data ident name n =
     \<lparr>data_auth_token = ''tok'', data_identifier = ident, data_filename = name,
      data_total_size = n\<rparr>"

text \<open>
  The merged tree with a stale \<^verbatim>\<open>out.txt\<close> in place of the merged one, the two chunk paths of
  \<^verbatim>\<open>abc\<close> as the glob lists them, and the bytes of each.
\<close>

definition example_stale_fs :: filesystem where
  "example_stale_fs =
     \<lparr>getcwd = ''/srv'',
      nodes =
        [([''srv''], Dir),
         ([''srv'', ''uploads''], Dir),
         ([''srv'', ''uploads'', ''tok''], Dir),
         ([''srv'', ''uploads'', ''tok'', ''abc''], Dir),
         ([''srv'', ''uploads'', ''tok'', ''abc'', ''chunk.00000001''], File ''WORLD''),
         ([''srv'', ''uploads'', ''tok'', ''abc'', ''chunk.00000000''], File ''HELLO''),
         ([''srv'', ''uploads'', ''tok'', ''empty''], Dir),
         ([''srv'', ''uploads'', ''tok'', ''abc'', ''out.txt''], File ''STALE'')]\<rparr>"



text \<open>
  An upload directory in which the name \<^verbatim>\<open>chunk.00000001\<close> is a directory: the glob lists it,
  and reading it fails.
\<close>

definition example_broken_fs :: filesystem where
  "example_broken_fs =
     \<lparr>getcwd = ''/srv'',
      nodes =
        [([''srv''], Dir),
         ([''srv'', ''uploads''], Dir),
         ([''srv'', ''uploads'', ''tok''], Dir),
         ([''srv'', ''uploads'', ''tok'', ''abc''], Dir),
         ([''srv'', ''uploads'', ''tok'', ''abc'', ''chunk.00000000''], File ''HELLO''),
         ([''srv'', ''uploads'', ''tok'', ''abc'', ''chunk.00000001''], Dir)]\<rparr>"



section \<open>Properties\<close>

subsection \<open>Lists and rows\<close>

lemma find_Some_in: "find P xs = Some x \<Longrightarrow> x \<in> set xs \<and> P x"
  by (induction xs) (auto split: if_splits)

lemma find_distinct_key:
  "distinct (map f xs) \<Longrightarrow> a \<in> set xs \<Longrightarrow> find (\<lambda>x. f x = f a) xs = Some a"
  by (induction xs) (auto simp: image_iff)

lemma update_first_find:
  "find P xs = Some x \<Longrightarrow> P (f x) \<Longrightarrow> find P (update_first P f xs) = Some (f x)"
  by (induction xs) (auto split: if_splits)

subsection \<open>The file system\<close>


lemma lookup_delete:
  "lookup (fs\<lparr>nodes := AList.delete k (nodes fs)\<rparr>) k' =
     (if k' = [] then Some Dir else if k' = k then None else lookup fs k')"
  by (simp add: lookup_def delete_conv')

lemma lookup_root: "lookup fs [] = Some Dir"
  by (simp add: lookup_def)

lemma walk_same_dirs:
  assumes "\<And>k. lookup fs' k = Some Dir \<longleftrightarrow> lookup fs k = Some Dir"
  shows "walk fs' cur cs = walk fs cur cs"
  using assms by (induction cs arbitrary: cur) simp_all

lemma resolve_same_dirs:
  assumes "\<And>k. lookup fs' k = Some Dir \<longleftrightarrow> lookup fs k = Some Dir"
    and "getcwd fs' = getcwd fs"
  shows "resolve fs' p = resolve fs p"
  using walk_same_dirs [of fs' fs, OF assms(1)] assms(2) by (simp add: resolve_def)






text \<open>Removing a file takes away its node and nothing else; a failed removal means there was no file.\<close>

lemma os_path_isfile_iff:
  "os_path_isfile fs p \<longleftrightarrow> (\<exists>k bs. resolve fs p = Some k \<and> lookup fs k = Some (File bs))"
  by (auto simp: os_path_isfile_def split: option.splits node.splits)

lemma os_remove_Inl: "os_remove fs p = Inl e \<Longrightarrow> e = OSError \<and> \<not> os_path_isfile fs p"
  by (auto simp: os_remove_def os_path_isfile_iff split: option.splits node.splits)

lemma os_remove_Inr:
  assumes "os_remove fs p = Inr fs'"
  shows "\<exists>k bs. resolve fs p = Some k \<and> lookup fs k = Some (File bs) \<and>
           fs' = fs\<lparr>nodes := AList.delete k (nodes fs)\<rparr> \<and> lookup fs' k = None \<and>
           (\<forall>k'. k' \<noteq> k \<longrightarrow> lookup fs' k' = lookup fs k') \<and> getcwd fs' = getcwd fs"
  using assms
  by (auto simp: os_remove_def lookup_delete lookup_root split: option.splits node.splits)

lemma os_remove_resolve:
  assumes "os_remove fs p = Inr fs'"
  shows "resolve fs' q = resolve fs q"
proof -
  from os_remove_Inr [OF assms] obtain k bs where k:
    "lookup fs k = Some (File bs)" "lookup fs' k = None"
    "\<forall>k'. k' \<noteq> k \<longrightarrow> lookup fs' k' = lookup fs k'" "getcwd fs' = getcwd fs"
    by blast
  have "lookup fs' k' = Some Dir \<longleftrightarrow> lookup fs k' = Some Dir" for k'
    using k(1-3) by (cases "k' = k") auto
  then show ?thesis
    using k(4) by (rule resolve_same_dirs)
qed

lemma os_remove_gone: "os_remove fs p = Inr fs' \<Longrightarrow> \<not> os_path_isfile fs' p"
  using os_remove_Inr [of fs p fs'] os_remove_resolve [of fs p fs' p]
  by (auto simp: os_path_isfile_iff)

lemma open_wb_Inl: "open_wb fs p = Inl e \<Longrightarrow> e = IOError"
  by (auto simp: open_wb_def split: option.splits if_splits)

lemma read_file_Inl: "read_file fs p = Inl e \<Longrightarrow> e = IOError"
  by (auto simp: read_file_def split: option.splits node.splits)

subsection \<open>The status of a transfer code\<close>

text \<open>
  Claim C2. For every token, \<^verbatim>\<open>get_auth_status\<close> returns one of the three strings
  \<^verbatim>\<open>'not found'\<close>, \<^verbatim>\<open>'expired'\<close>, \<^verbatim>\<open>'valid'\<close> and nothing else. It returns \<^verbatim>\<open>'not found'\<close>
  exactly when no access row carries the token. When the query finds a row, the answer is
  \<^verbatim>\<open>'expired'\<close> exactly when the current time is strictly later than the row's expiration
  date, and \<^verbatim>\<open>'valid'\<close> exactly when it is not. The row the query finds is the first one
  with the token; where tokens are unique in the table that is every row with the token.
\<close>

theorem get_auth_status_outcomes:
  "get_auth_status now db tok \<in> {''not found'', ''expired'', ''valid''} \<and>
   (get_auth_status now db tok = ''not found'' \<longleftrightarrow>
      (\<forall>a \<in> set (accesses db). auth_token a \<noteq> tok)) \<and>
   (\<forall>a. find (\<lambda>a. auth_token a = tok) (accesses db) = Some a \<longrightarrow>
      (get_auth_status now db tok = ''expired'' \<longleftrightarrow> now > expiration_date a) \<and>
      (get_auth_status now db tok = ''valid'' \<longleftrightarrow> \<not> now > expiration_date a)) \<and>
   (distinct (map auth_token (accesses db)) \<longrightarrow>
      (\<forall>a \<in> set (accesses db). auth_token a = tok \<longrightarrow>
         (get_auth_status now db tok = ''expired'' \<longleftrightarrow> now > expiration_date a) \<and>
         (get_auth_status now db tok = ''valid'' \<longleftrightarrow> \<not> now > expiration_date a)))"
proof -
  have three: "get_auth_status now db tok \<in> {''not found'', ''expired'', ''valid''}"
    by (simp add: get_auth_status_def split: option.split)
  have none: "get_auth_status now db tok = ''not found'' \<longleftrightarrow>
      (\<forall>a \<in> set (accesses db). auth_token a \<noteq> tok)"
    by (auto simp: get_auth_status_def find_None_iff split: option.split dest: find_Some_in)
  have first: "(get_auth_status now db tok = ''expired'' \<longleftrightarrow> now > expiration_date a) \<and>
      (get_auth_status now db tok = ''valid'' \<longleftrightarrow> \<not> now > expiration_date a)"
    if "find (\<lambda>a. auth_token a = tok) (accesses db) = Some a" for a
    using that by (simp add: get_auth_status_def)
  have uniq: "(get_auth_status now db tok = ''expired'' \<longleftrightarrow> now > expiration_date a) \<and>
      (get_auth_status now db tok = ''valid'' \<longleftrightarrow> \<not> now > expiration_date a)"
    if "distinct (map auth_token (accesses db))" "a \<in> set (accesses db)" "auth_token a = tok" for a
    using first [of a] find_distinct_key [OF that(1,2)] that(3) by simp
  show ?thesis using three none first uniq by blast
qed

theorem get_auth_status_outcomes_witness:
  "get_auth_status 2001 example_accesses ''c2VjcmV0IHRva2VuIQ=='' = ''expired'' \<and>
   get_auth_status 2000 example_accesses ''c2VjcmV0IHRva2VuIQ=='' = ''valid'' \<and>
   get_auth_status 2001 example_accesses ''unknown'' = ''not found''"
  using get_auth_status_outcomes [of 2001 example_accesses "''c2VjcmV0IHRva2VuIQ==''"]
    get_auth_status_outcomes [of 2000 example_accesses "''c2VjcmV0IHRva2VuIQ==''"]
    get_auth_status_outcomes [of 2001 example_accesses "''unknown''"]
  by (simp add: example_accesses_def)

subsection \<open>Issuing a transfer code\<close>

lemma b64_groups_length: "length (b64_groups xs) = 4 * ((length xs + 2) div 3)"
proof (induction xs rule: b64_groups.induct)
  case (4 a b c bs)
  have "(5 + length bs) div 3 = Suc ((length bs + 2) div 3)"
    by presburger
  with 4 show ?case by simp
qed simp_all

lemma urlsafe_b64encode_length: "length (urlsafe_b64encode s) = 4 * ((length s + 2) div 3)"
  by (simp add: urlsafe_b64encode_def b64_groups_length)

lemma generate_auth_token_result:
  assumes "generate_auth_token rng now db st un nm em dd = Inr ((tok, exp), db', rng')"
  shows "tok = urlsafe_b64encode (map rng [0..<12])"
    and "exp = now + (case dd of None \<Rightarrow> 1 | Some d \<Rightarrow> d) * 86400000000"
    and "accesses db' = accesses db @
           [\<lparr>auth_token = tok, creation_date = now, expiration_date = exp,
             access_user = access_user (last (accesses db'))\<rparr>]"
  using assms
  by (auto simp: generate_auth_token_def os_urandom_def timedelta_def datetime_add_def Let_def
      split: option.splits sum.splits if_splits)

text \<open>
  Claim C7, as the code has it. The token \<^verbatim>\<open>generate_auth_token\<close> issues is the base64url
  encoding of the twelve bytes it draws from the random source, sixteen characters long.
  The expiration date it returns and stores is the creation date plus \<^verbatim>\<open>duration_days\<close>
  days, one day when the argument is left out; the access row holds the token with both
  dates. The call returns for every known server token whose dates stay in the range of
  \<^verbatim>\<open>datetime\<close>.
\<close>

theorem generate_auth_token_issues:
  "(generate_auth_token rng now db st un nm em dd = Inr ((tok, exp), db', rng') \<longrightarrow>
      tok = urlsafe_b64encode (map rng [0..<12]) \<and> length (map rng [0..<12]) = 12 \<and>
      length tok = 16 \<and>
      exp = now + (case dd of None \<Rightarrow> 1 | Some d \<Rightarrow> d) * 86400000000 \<and>
      (\<exists>u. accesses db' = accesses db @
           [\<lparr>auth_token = tok, creation_date = now, expiration_date = exp, access_user = u\<rparr>])) \<and>
   ((\<exists>s \<in> set (servers db). server_token s = st) \<longrightarrow>
      \<bar>case dd of None \<Rightarrow> 1 | Some d \<Rightarrow> d\<bar> \<le> 999999999 \<longrightarrow>
      0 \<le> now + (case dd of None \<Rightarrow> 1 | Some d \<Rightarrow> d) * 86400000000 \<longrightarrow>
      now + (case dd of None \<Rightarrow> 1 | Some d \<Rightarrow> d) * 86400000000 < 3652059 * 86400000000 \<longrightarrow>
      (\<exists>res. generate_auth_token rng now db st un nm em dd = Inr res))"
proof -
  have issued: "tok = urlsafe_b64encode (map rng [0..<12]) \<and> length (map rng [0..<12]) = 12 \<and>
      length tok = 16 \<and>
      exp = now + (case dd of None \<Rightarrow> 1 | Some d \<Rightarrow> d) * 86400000000 \<and>
      (\<exists>u. accesses db' = accesses db @
           [\<lparr>auth_token = tok, creation_date = now, expiration_date = exp, access_user = u\<rparr>])"
    if r: "generate_auth_token rng now db st un nm em dd = Inr ((tok, exp), db', rng')"
  proof -
    note res = generate_auth_token_result [OF r]
    have "length tok = 16"
      by (simp add: res(1) urlsafe_b64encode_length)
    then show ?thesis
      using res by auto
  qed
  have returns: "\<exists>res. generate_auth_token rng now db st un nm em dd = Inr res"
    if "\<exists>s \<in> set (servers db). server_token s = st"
      "\<bar>case dd of None \<Rightarrow> 1 | Some d \<Rightarrow> d\<bar> \<le> 999999999"
      "0 \<le> now + (case dd of None \<Rightarrow> 1 | Some d \<Rightarrow> d) * 86400000000"
      "now + (case dd of None \<Rightarrow> 1 | Some d \<Rightarrow> d) * 86400000000 < 3652059 * 86400000000"
  proof -
    from that(1) obtain s where "find (\<lambda>s. server_token s = st) (servers db) = Some s"
      by (cases "find (\<lambda>s. server_token s = st) (servers db)") (auto simp: find_None_iff)
    then show ?thesis
      using that(2-4)
      by (simp add: generate_auth_token_def os_urandom_def timedelta_def datetime_add_def Let_def
          split: option.splits)
  qed
  show ?thesis using issued returns by blast
qed

theorem generate_auth_token_issues_witness:
  "generate_auth_token (\<lambda>i. CHR ''a'') 1000 example_servers ''s3cr3t'' ''ann'' None None None =
     Inr ((''YWFhYWFhYWFhYWFh'', 86400001000),
          \<lparr>servers = [\<lparr>server_token = ''s3cr3t'', server_id = ''1''\<rparr>],
           users = [\<lparr>user_id = ''1/ann'', user_name = None, user_email = None, user_server = ''1''\<rparr>],
           accesses = [\<lparr>auth_token = ''YWFhYWFhYWFhYWFh'', creation_date = 1000,
                        expiration_date = 86400001000, access_user = ''1/ann''\<rparr>],
           files = []\<rparr>,
          \<lambda>i. CHR ''a'') \<and>
   length ''YWFhYWFhYWFhYWFh'' = (16::nat) \<and> (86400001000::int) = 1000 + 1 * 86400000000"
proof -
  have run: "generate_auth_token (\<lambda>i. CHR ''a'') 1000 example_servers ''s3cr3t'' ''ann'' None None None =
     Inr ((''YWFhYWFhYWFhYWFh'', 86400001000),
          \<lparr>servers = [\<lparr>server_token = ''s3cr3t'', server_id = ''1''\<rparr>],
           users = [\<lparr>user_id = ''1/ann'', user_name = None, user_email = None, user_server = ''1''\<rparr>],
           accesses = [\<lparr>auth_token = ''YWFhYWFhYWFhYWFh'', creation_date = 1000,
                        expiration_date = 86400001000, access_user = ''1/ann''\<rparr>],
           files = []\<rparr>,
          \<lambda>i. CHR ''a'')"
    by (simp add: generate_auth_token_def example_servers_def os_urandom_def timedelta_def
        datetime_add_def urlsafe_b64encode_def b64_char_def upt_rec Let_def)
  show ?thesis
    using generate_auth_token_issues [of "\<lambda>i. CHR ''a''" 1000 example_servers "''s3cr3t''" "''ann''"
        None None None "''YWFhYWFhYWFhYWFh''" 86400001000 _ "\<lambda>i. CHR ''a''"] run
    by simp
qed

text \<open>
  Claim C7, as stated, asks for at least sixteen bytes of entropy. The token of this call
  encodes the twelve bytes \<^verbatim>\<open>aaaaaaaaaaaa\<close>, and no string of sixteen or more bytes has it as
  its encoding.
\<close>

theorem generate_auth_token_entropy_counterexample:
  "(case generate_auth_token (\<lambda>i. CHR ''a'') 1000 example_servers ''s3cr3t'' ''ann'' None None None of
      Inl e \<Rightarrow> False
    | Inr ((tok, exp), db', rng') \<Rightarrow>
        tok = ''YWFhYWFhYWFhYWFh'' \<and> tok = urlsafe_b64encode ''aaaaaaaaaaaa'' \<and>
        length ''aaaaaaaaaaaa'' = (12::nat) \<and>
        \<not> (\<exists>bs. 16 \<le> length bs \<and> tok = urlsafe_b64encode bs))"
proof -
  have none: "\<not> (\<exists>bs. 16 \<le> length bs \<and> ''YWFhYWFhYWFhYWFh'' = urlsafe_b64encode bs)"
  proof
    assume "\<exists>bs. 16 \<le> length bs \<and> ''YWFhYWFhYWFhYWFh'' = urlsafe_b64encode bs"
    then obtain bs where bs: "16 \<le> length bs" "''YWFhYWFhYWFhYWFh'' = urlsafe_b64encode bs"
      by blast
    have "length (urlsafe_b64encode bs) = 4 * ((length bs + 2) div 3)"
      by (rule urlsafe_b64encode_length)
    moreover have "length (urlsafe_b64encode bs) = length ''YWFhYWFhYWFhYWFh''"
      using bs(2) by simp
    ultimately have "4 * ((length bs + 2) div 3) = 16"
      by simp
    with bs(1) show False by presburger
  qed
  show ?thesis
    using none
    by (simp add: generate_auth_token_def example_servers_def os_urandom_def timedelta_def
        datetime_add_def urlsafe_b64encode_def b64_char_def upt_rec Let_def)
qed


subsection \<open>Recording the status of an upload\<close>









subsection \<open>Finalising an upload without chunks\<close>

text \<open>
  Claim C9 asks that every \<^verbatim>\<open>generate_file\<close> call returns a response, also for an upload
  without chunk files and without a merged file. For the upload directory \<^verbatim>\<open>empty\<close> the
  glob finds nothing, \<^verbatim>\<open>merge_chunks\<close> reads \<^verbatim>\<open>chunk_paths[0]\<close> of the empty list, and the
  IndexError leaves \<^verbatim>\<open>generate_file\<close>: no response is returned.
\<close>

theorem generate_file_without_chunks:
  "generate_file' example_cfg 7 (example_data ''empty'' ''out.txt'' 10) (example_fs, example_db) =
     Inl IndexError"
  by code_simp


subsection \<open>A merge that meets no error\<close>







subsection \<open>The output file of a merge\<close>





subsection \<open>Chunk names and the order of the merge\<close>

text \<open>
  Below \<^verbatim>\<open>10^8\<close> the padded number has exactly eight digits, and comparing two such
  strings compares the numbers; the chunk names of one directory share their prefix.
\<close>

lemma fixed_digits_length [simp]: "length (fixed_digits w n) = w"
  by (induction w arbitrary: n) simp_all



















subsection \<open>A merge that meets an I/O error\<close>

text \<open>
  The only exception the file operations of the merge raise is IOError, and the handler
  turns it into the result \<^verbatim>\<open>False\<close>: with a chunk to start from, \<^verbatim>\<open>merge_chunks\<close> always returns.
\<close>

lemma merge_failed_IOError:
  "\<exists>fs'. merge_failed IOError fs output_file = Inr (False, fs') \<and> \<not> os_path_isfile fs' output_file"
  by (cases "os_remove fs output_file")
    (auto simp: merge_failed_def dest: os_remove_Inl os_remove_gone)

lemma copy_chunks_error: "copy_chunks fs out ps = (Some e, fs') \<Longrightarrow> e = IOError"
  by (induction ps arbitrary: fs) (auto split: sum.splits dest: read_file_Inl)

lemma merge_chunks_returns:
  assumes "chunk_paths \<noteq> []"
  shows "\<exists>success fs'. merge_chunks fs chunk_paths filename = Inr (success, fs')"
proof -
  from assms obtain first rest where srt: "sort chunk_paths = first # rest"
    by (cases "sort chunk_paths") (auto dest: arg_cong [where f = length])
  let ?out = "os_path_join (os_path_dirname (os_path_realpath fs first)) filename"
  show ?thesis
  proof (cases "open_wb fs ?out")
    case (Inl e)
    then show ?thesis
      using merge_failed_IOError [of fs ?out] open_wb_Inl [OF Inl] srt
      by (auto simp: merge_chunks_def Let_def)
  next
    case (Inr r)
    obtain fs0 out where r: "r = (fs0, out)" by (cases r)
    show ?thesis
    proof (cases "copy_chunks fs0 out (sort chunk_paths)")
      case (Pair e fs1)
      then show ?thesis
        using merge_failed_IOError [of fs1 ?out] copy_chunks_error [of fs0 out "sort chunk_paths" _ fs1]
          srt Inr r
        by (cases e) (auto simp: merge_chunks_def Let_def)
    qed
  qed
qed

text \<open>
  Claim C6. Let \<^verbatim>\<open>merge_chunks\<close> meet an IOError, at the open of the output file or at the
  read of a chunk in the loop. Then it returns \<^verbatim>\<open>False\<close>, and no regular file is at the
  output path afterwards: the handler removed what was written, and an OSError of the
  removal (there was nothing to remove) is passed over. A \<^verbatim>\<open>generate_file\<close> call that runs
  this merge returns the response \<^verbatim>\<open>'Error: File could not be merged'\<close> with code 500 and has
  called \<^verbatim>\<open>update_file_status\<close> with \<^verbatim>\<open>'unmerged'\<close>: the file row of the identifier, if there
  is one, has that status and the current time as its end date.
\<close>

theorem merge_chunks_io_failure:
  assumes "sort chunk_paths = first # rest"
    and "output_file = os_path_join (os_path_dirname (os_path_realpath fs first)) filename"
    and "(case open_wb fs output_file of
            Inl e \<Rightarrow> e = IOError
          | Inr (fs0, out) \<Rightarrow> fst (copy_chunks fs0 out (sort chunk_paths)) = Some IOError)"
  shows "\<exists>fs'. merge_chunks fs chunk_paths filename = Inr (False, fs') \<and>
           \<not> os_path_isfile fs' output_file \<and>
           (\<forall>cfg now data db.
              get_file_chunks cfg fs (get_tempdir cfg [data_auth_token data, data_identifier data])
                = chunk_paths \<longrightarrow>
              data_filename data = filename \<longrightarrow>
              \<not> os_path_isfile fs
                  (os_path_join (get_tempdir cfg [data_auth_token data, data_identifier data]) filename) \<longrightarrow>
                generate_file' cfg now data (fs, db) =
                  Inr (return_message ''Error: File could not be merged'' 500, fs',
                       update_file_status now (data_identifier data) ''unmerged'' db) \<and>
                (\<forall>f. find (\<lambda>f. file_identifier f = data_identifier data) (files db) = Some f \<longrightarrow>
                   find (\<lambda>f. file_identifier f = data_identifier data)
                     (files (update_file_status now (data_identifier data) ''unmerged'' db)) =
                   Some (f\<lparr>upload_status := ''unmerged'', upload_end_date := Some now\<rparr>)))"
proof -
  have "\<exists>fs'. merge_chunks fs chunk_paths filename = Inr (False, fs') \<and>
           \<not> os_path_isfile fs' output_file"
  proof (cases "open_wb fs output_file")
    case (Inl e)
    then show ?thesis
      using merge_failed_IOError [of fs output_file] assms
      by (auto simp: merge_chunks_def Let_def)
  next
    case (Inr r)
    obtain fs0 out where r: "r = (fs0, out)" by (cases r)
    obtain e fs1 where c: "copy_chunks fs0 out (sort chunk_paths) = (e, fs1)"
      by (cases "copy_chunks fs0 out (sort chunk_paths)")
    with assms(3) Inr r have e: "e = Some IOError" by simp
    show ?thesis
      using merge_failed_IOError [of fs1 output_file] assms(1,2) Inr r c e
      by (auto simp: merge_chunks_def Let_def)
  qed
  then obtain fs' where fs': "merge_chunks fs chunk_paths filename = Inr (False, fs')"
    "\<not> os_path_isfile fs' output_file"
    by blast
  have gen: "generate_file' cfg now data (fs, db) =
                  Inr (return_message ''Error: File could not be merged'' 500, fs',
                       update_file_status now (data_identifier data) ''unmerged'' db)"
    if "get_file_chunks cfg fs (get_tempdir cfg [data_auth_token data, data_identifier data]) = chunk_paths"
      "data_filename data = filename"
      "\<not> os_path_isfile fs
          (os_path_join (get_tempdir cfg [data_auth_token data, data_identifier data]) filename)"
    for cfg now data db
    using that fs'(1) by (simp add: generate_file'_def Let_def)
  have row: "find (\<lambda>f. file_identifier f = ident) (files (update_file_status now ident ''unmerged'' db)) =
                   Some (f\<lparr>upload_status := ''unmerged'', upload_end_date := Some now\<rparr>)"
    if "find (\<lambda>f. file_identifier f = ident) (files db) = Some f" for f ident now db
    using that find_Some_in [OF that]
    by (simp add: update_file_status_def update_first_find)
  show ?thesis
    using fs' gen row by blast
qed

lemma example_broken_glob:
  "get_file_chunks example_cfg example_broken_fs
     (get_tempdir example_cfg [data_auth_token (example_data ''abc'' ''out.txt'' 10),
        data_identifier (example_data ''abc'' ''out.txt'' 10)]) =
     [''/srv/uploads/tok/abc/chunk.00000000'', ''/srv/uploads/tok/abc/chunk.00000001'']"
  by code_simp

theorem merge_chunks_io_failure_witness:
  "merge_chunks example_broken_fs
     [''/srv/uploads/tok/abc/chunk.00000000'', ''/srv/uploads/tok/abc/chunk.00000001''] ''out.txt'' =
     Inr (False, example_broken_fs) \<and>
   \<not> os_path_isfile example_broken_fs ''/srv/uploads/tok/abc/out.txt'' \<and>
   generate_file' example_cfg 7 (example_data ''abc'' ''out.txt'' 10) (example_broken_fs, example_db) =
     Inr (return_message ''Error: File could not be merged'' 500, example_broken_fs,
          \<lparr>servers = [], users = [], accesses = [],
           files = [\<lparr>file_identifier = ''abc'', upload_status = ''unmerged'',
                     upload_end_date = Some 7\<rparr>]\<rparr>)"
proof -
  let ?paths = "[''/srv/uploads/tok/abc/chunk.00000000'', ''/srv/uploads/tok/abc/chunk.00000001'']"
  have srt: "sort ?paths = ''/srv/uploads/tok/abc/chunk.00000000'' # [''/srv/uploads/tok/abc/chunk.00000001'']"
    by code_simp
  have outf: "''/srv/uploads/tok/abc/out.txt'' =
      os_path_join (os_path_dirname (os_path_realpath example_broken_fs
        ''/srv/uploads/tok/abc/chunk.00000000'')) ''out.txt''"
    by code_simp
  have fails: "(case open_wb example_broken_fs ''/srv/uploads/tok/abc/out.txt'' of
            Inl e \<Rightarrow> e = IOError
          | Inr (fs0, out) \<Rightarrow> fst (copy_chunks fs0 out (sort ?paths)) = Some IOError)"
    by code_simp
  have run: "merge_chunks example_broken_fs ?paths ''out.txt'' = Inr (False, example_broken_fs)"
    by code_simp
  have nofile: "\<not> os_path_isfile example_broken_fs
      (os_path_join (get_tempdir example_cfg [data_auth_token (example_data ''abc'' ''out.txt'' 10),
        data_identifier (example_data ''abc'' ''out.txt'' 10)]) ''out.txt'')"
    by code_simp
  have upd: "update_file_status 7 ''abc'' ''unmerged'' example_db =
      \<lparr>servers = [], users = [], accesses = [],
           files = [\<lparr>file_identifier = ''abc'', upload_status = ''unmerged'',
                     upload_end_date = Some 7\<rparr>]\<rparr>"
    by code_simp
  have d: "data_filename (example_data ''abc'' ''out.txt'' 10) = ''out.txt''"
    "data_identifier (example_data ''abc'' ''out.txt'' 10) = ''abc''"
    by (simp_all add: example_data_def)
  from merge_chunks_io_failure [OF srt outf fails] obtain fs' where fs':
    "merge_chunks example_broken_fs ?paths ''out.txt'' = Inr (False, fs')"
    "\<not> os_path_isfile fs' ''/srv/uploads/tok/abc/out.txt''"
    "\<And>cfg now data db.
       get_file_chunks cfg example_broken_fs
         (get_tempdir cfg [data_auth_token data, data_identifier data]) = ?paths \<Longrightarrow>
       data_filename data = ''out.txt'' \<Longrightarrow>
       \<not> os_path_isfile example_broken_fs
           (os_path_join (get_tempdir cfg [data_auth_token data, data_identifier data]) ''out.txt'') \<Longrightarrow>
       generate_file' cfg now data (example_broken_fs, db) =
         Inr (return_message ''Error: File could not be merged'' 500, fs',
              update_file_status now (data_identifier data) ''unmerged'' db)"
    by blast
  from fs'(1) run have eq: "fs' = example_broken_fs" by simp
  show ?thesis
    using fs'(2) fs'(3) [OF example_broken_glob d(1) nofile, of 7 example_db] run
    by (simp add: eq d upd)
qed


subsection \<open>The checks on the merged file\<close>

text \<open>
  The clean-up and the checks never write: a node of the tree afterwards is the node that
  was there, or none. With a regular file at the merged path \<^verbatim>\<open>generate_file\<close> is the checks.
\<close>

lemma os_remove_only_deletes:
  "os_remove fs p = Inr fs' \<Longrightarrow> lookup fs' k = lookup fs k \<or> lookup fs' k = None"
proof -
  assume "os_remove fs p = Inr fs'"
  from os_remove_Inr [OF this] obtain d where d: "lookup fs' d = None"
    "\<forall>k'. k' \<noteq> d \<longrightarrow> lookup fs' k' = lookup fs k'"
    by blast
  then show ?thesis by (cases "k = d") simp_all
qed

lemma remove_entries_only_deletes:
  "remove_entries fs tempdir ns = (e, fs') \<Longrightarrow> lookup fs' k = lookup fs k \<or> lookup fs' k = None"
proof (induction ns arbitrary: fs)
  case Nil
  then show ?case by simp
next
  case (Cons n ns)
  show ?case
  proof (cases "os_remove fs (os_path_join tempdir n)")
    case (Inl a)
    then show ?thesis using Cons.prems by simp
  next
    case (Inr fs1)
    then have "remove_entries fs1 tempdir ns = (e, fs')"
      using Cons.prems by simp
    from Cons.IH [OF this] os_remove_only_deletes [OF Inr, of k] show ?thesis
      by auto
  qed
qed

lemma os_rmdir_only_deletes:
  "os_rmdir fs p = Inr fs' \<Longrightarrow> lookup fs' k = lookup fs k \<or> lookup fs' k = None"
  by (auto simp: os_rmdir_def Let_def lookup_delete lookup_root split: if_splits option.splits)

lemma remove_from_uploads_only_deletes:
  assumes "remove_from_uploads fs tempdir = Inr fs'"
  shows "lookup fs' k = lookup fs k \<or> lookup fs' k = None"
proof (cases "os_listdir fs tempdir")
  case (Inl e)
  then show ?thesis using assms by (simp add: remove_from_uploads_def split: if_splits)
next
  case (Inr names)
  obtain e fs1 where re: "remove_entries fs tempdir names = (e, fs1)"
    by (cases "remove_entries fs tempdir names")
  note d1 = remove_entries_only_deletes [OF re, of k]
  show ?thesis
  proof (cases e)
    case (Some a)
    then show ?thesis
      using assms Inr re d1 by (simp add: remove_from_uploads_def split: if_splits)
  next
    case None
    show ?thesis
    proof (cases "os_rmdir fs1 tempdir")
      case (Inl a)
      then show ?thesis
        using assms Inr re None d1 by (simp add: remove_from_uploads_def split: if_splits)
    next
      case (Inr fs2)
      then have "fs' = fs2"
        using assms \<open>os_listdir fs tempdir = Inr names\<close> re None
        by (simp add: remove_from_uploads_def)
      then show ?thesis
        using os_rmdir_only_deletes [OF Inr, of k] d1 by auto
    qed
  qed
qed

lemma check_merged_file_effect:
  assumes "check_merged_file cfg now data temp_dir merged_file (fs, db) = Inr (r, fs', db')"
  shows "(lookup fs' k = lookup fs k \<or> lookup fs' k = None) \<and> status_code r \<noteq> 500"
proof (cases "is_gzip_file (data_filename data) \<and> gzip_test cfg fs merged_file = Inr False")
  case True
  with assms have "remove_from_uploads fs temp_dir = Inr fs'"
    "r = return_message ''Error: Truncated GZIP file'' 415"
    by (simp_all add: check_merged_file_def split: sum.splits)
  then show ?thesis
    using remove_from_uploads_only_deletes [of fs temp_dir fs' k]
    by (simp add: return_message_def)
next
  case False
  then have gz: "(if is_gzip_file (data_filename data) then gzip_test cfg fs merged_file else Inr True)
      \<noteq> Inr False"
    by auto
  obtain readable where rd:
    "(if is_gzip_file (data_filename data) then gzip_test cfg fs merged_file else Inr True) = Inr readable"
    using assms by (cases "if is_gzip_file (data_filename data) then gzip_test cfg fs merged_file else Inr True")
      (simp_all add: check_merged_file_def)
  with gz have readable: "readable" by auto
  obtain sz where sz: "os_path_getsize (dir_size cfg) fs merged_file = Inr sz"
    using assms rd readable
    by (cases "os_path_getsize (dir_size cfg) fs merged_file") (simp_all add: check_merged_file_def)
  show ?thesis
  proof (cases "sz \<noteq> data_total_size data")
    case True
    with assms rd readable sz have "os_remove fs merged_file = Inr fs'"
      "r = return_message ''Error: Inconsistent merged file size'' 415"
      by (simp_all add: check_merged_file_def split: sum.splits)
    then show ?thesis
      using os_remove_only_deletes [of fs merged_file fs' k]
      by (simp add: return_message_def)
  next
    case False
    with assms rd readable sz have "fs' = fs"
      "r = return_message ''Success: File upload completed successfully'' 200"
      by (simp_all add: check_merged_file_def)
    then show ?thesis by (simp add: return_message_def)
  qed
qed


subsection \<open>Finalising an upload that is already merged\<close>

text \<open>
  Claim C5. When a regular file is at the merged path before the call, \<^verbatim>\<open>generate_file\<close>
  does not call \<^verbatim>\<open>merge_chunks\<close>: its result is the result of the checks (gzip test, size test)
  run on the file system as it was, which do not take the chunk list. The response is
  never the 500 of a failed merge, and no node of the tree is written: every node is
  afterwards as before, or removed by the clean-up of a failed check.
\<close>

theorem generate_file_existing_merged:
  assumes "temp_dir = get_tempdir cfg [data_auth_token data, data_identifier data]"
    and "merged_file = os_path_join temp_dir (data_filename data)"
    and "os_path_isfile fs merged_file"
  shows "generate_file' cfg now data (fs, db) =
           check_merged_file cfg now data temp_dir merged_file (fs, db) \<and>
         (\<forall>r fs' db'. generate_file' cfg now data (fs, db) = Inr (r, fs', db') \<longrightarrow>
            status_code r \<noteq> 500 \<and>
            (\<forall>k. lookup fs' k = lookup fs k \<or> lookup fs' k = None))"
proof -
  have eq: "generate_file' cfg now data (fs, db) =
           check_merged_file cfg now data temp_dir merged_file (fs, db)"
    using assms by (simp add: generate_file'_def Let_def)
  show ?thesis
    using check_merged_file_effect [of cfg now data temp_dir merged_file fs db]
    by (auto simp: eq)
qed

theorem generate_file_existing_merged_witness:
  "os_path_isfile example_stale_fs ''/srv/uploads/tok/abc/out.txt'' \<and>
   generate_file' example_cfg 7 (example_data ''abc'' ''out.txt'' 5) (example_stale_fs, example_db) =
     Inr (return_message ''Success: File upload completed successfully'' 200, example_stale_fs,
          \<lparr>servers = [], users = [], accesses = [],
           files = [\<lparr>file_identifier = ''abc'', upload_status = ''complete'',
                     upload_end_date = Some 7\<rparr>]\<rparr>)"
proof -
  have td: "''/srv/uploads/tok/abc'' =
      get_tempdir example_cfg [data_auth_token (example_data ''abc'' ''out.txt'' 5),
        data_identifier (example_data ''abc'' ''out.txt'' 5)]"
    by code_simp
  have mf: "''/srv/uploads/tok/abc/out.txt'' =
      os_path_join ''/srv/uploads/tok/abc'' (data_filename (example_data ''abc'' ''out.txt'' 5))"
    by code_simp
  have isf: "os_path_isfile example_stale_fs ''/srv/uploads/tok/abc/out.txt''"
    by code_simp
  have chk: "check_merged_file example_cfg 7 (example_data ''abc'' ''out.txt'' 5)
      ''/srv/uploads/tok/abc'' ''/srv/uploads/tok/abc/out.txt'' (example_stale_fs, example_db) =
     Inr (return_message ''Success: File upload completed successfully'' 200, example_stale_fs,
          \<lparr>servers = [], users = [], accesses = [],
           files = [\<lparr>file_identifier = ''abc'', upload_status = ''complete'',
                     upload_end_date = Some 7\<rparr>]\<rparr>)"
    by code_simp
  show ?thesis
    using generate_file_existing_merged [OF td mf isf, of 7 example_db] isf chk
    by simp
qed

subsection \<open>A merged file of the wrong size\<close>














end
